theory Spec2Isabelle
  imports Complex_Main
begin

section \<open>JavaScript numbers and text parsing\<close>

text \<open>
  The screens compute with JavaScript numbers. A number is modelled as an exact real
  (\<open>Fin\<close>), one of the two infinities, or \<open>NaN\<close>. What the model leaves out of
  IEEE-754 doubles: rounding to 53 bits, overflow of a finite result to an infinity, and
  the sign of zero. Arithmetic and comparison follow the ECMAScript rules for the
  special values: \<open>NaN\<close> is absorbing and compares false with everything.
\<close>

datatype number = NaN | PInf | NInf | Fin real

text \<open>The infinity carrying the sign of \<open>s\<close>; \<open>NaN\<close> when \<open>s\<close> is zero.\<close>

definition inf_of_sign :: "real \<Rightarrow> number" where
  "inf_of_sign s = (if 0 < s then PInf else if s < 0 then NInf else NaN)"

instantiation number :: "{plus, minus, times, inverse, ord}"
begin

fun plus_number :: "number \<Rightarrow> number \<Rightarrow> number" where
  "plus_number (Fin a) (Fin b) = Fin (a + b)"
| "plus_number NaN _ = NaN"
| "plus_number _ NaN = NaN"
| "plus_number PInf NInf = NaN"
| "plus_number NInf PInf = NaN"
| "plus_number PInf _ = PInf"
| "plus_number _ PInf = PInf"
| "plus_number NInf _ = NInf"
| "plus_number _ NInf = NInf"

fun minus_number :: "number \<Rightarrow> number \<Rightarrow> number" where
  "minus_number (Fin a) (Fin b) = Fin (a - b)"
| "minus_number NaN _ = NaN"
| "minus_number _ NaN = NaN"
| "minus_number PInf PInf = NaN"
| "minus_number NInf NInf = NaN"
| "minus_number PInf _ = PInf"
| "minus_number _ NInf = PInf"
| "minus_number NInf _ = NInf"
| "minus_number _ PInf = NInf"

fun times_number :: "number \<Rightarrow> number \<Rightarrow> number" where
  "times_number (Fin a) (Fin b) = Fin (a * b)"
| "times_number NaN _ = NaN"
| "times_number _ NaN = NaN"
| "times_number PInf (Fin b) = inf_of_sign b"
| "times_number NInf (Fin b) = inf_of_sign (- b)"
| "times_number (Fin a) PInf = inf_of_sign a"
| "times_number (Fin a) NInf = inf_of_sign (- a)"
| "times_number PInf PInf = PInf"
| "times_number NInf NInf = PInf"
| "times_number PInf NInf = NInf"
| "times_number NInf PInf = NInf"

fun divide_number :: "number \<Rightarrow> number \<Rightarrow> number" where
  "divide_number (Fin a) (Fin b) = (if b = 0 then inf_of_sign a else Fin (a / b))"
| "divide_number NaN _ = NaN"
| "divide_number _ NaN = NaN"
| "divide_number PInf (Fin b) = (if b < 0 then NInf else PInf)"
| "divide_number NInf (Fin b) = (if b < 0 then PInf else NInf)"
| "divide_number (Fin a) PInf = Fin 0"
| "divide_number (Fin a) NInf = Fin 0"
| "divide_number PInf PInf = NaN"
| "divide_number PInf NInf = NaN"
| "divide_number NInf PInf = NaN"
| "divide_number NInf NInf = NaN"

definition inverse_number :: "number \<Rightarrow> number" where
  "inverse_number x = divide (Fin 1) x"

fun less_number :: "number \<Rightarrow> number \<Rightarrow> bool" where
  "less_number (Fin a) (Fin b) = (a < b)"
| "less_number NaN _ = False"
| "less_number _ NaN = False"
| "less_number PInf _ = False"
| "less_number _ NInf = False"
| "less_number _ _ = True"

fun less_eq_number :: "number \<Rightarrow> number \<Rightarrow> bool" where
  "less_eq_number (Fin a) (Fin b) = (a \<le> b)"
| "less_eq_number NaN _ = False"
| "less_eq_number _ NaN = False"
| "less_eq_number NInf _ = True"
| "less_eq_number _ PInf = True"
| "less_eq_number _ _ = False"

instance ..

end

text \<open>The global \<open>isNaN\<close>, on a number.\<close>

definition isNaN :: "number \<Rightarrow> bool" where
  "isNaN x = (x = NaN)"

text \<open>
  A number is falsy when it is \<open>0\<close> or \<open>NaN\<close>. \<open>or_0 v\<close> is the expression
  \<open>v || 0\<close> for a value that is a number or \<open>undefined\<close> (\<open>None\<close>).
\<close>

fun falsy :: "number \<Rightarrow> bool" where
  "falsy NaN = True"
| "falsy (Fin r) = (r = 0)"
| "falsy PInf = False"
| "falsy NInf = False"

fun or_0 :: "number option \<Rightarrow> number" where
  "or_0 None = Fin 0"
| "or_0 (Some x) = (if falsy x then Fin 0 else x)"

text \<open>\<open>Math.max\<close> of two numbers: \<open>NaN\<close> when either is \<open>NaN\<close>.\<close>

definition Math_max :: "number \<Rightarrow> number \<Rightarrow> number" where
  "Math_max x y = (if isNaN x \<or> isNaN y then NaN else if x < y then y else x)"

subsection \<open>parseInt and parseFloat\<close>

text \<open>
  Text is a \<open>string\<close> of 8-bit characters, which covers what the numeric keypads of the
  screens produce. The two parsers are the platform's, modelled after their ECMAScript
  definitions: leading white space is skipped, the longest prefix that is a numeral is
  read, the rest of the text is ignored, and the result is \<open>NaN\<close> when no numeral
  starts the text. The number returned is the exact value of the numeral: as for the
  arithmetic, rounding to the nearest double and overflow to an infinity are left out.
\<close>

definition isWhiteSpace :: "char \<Rightarrow> bool" where
  "isWhiteSpace c = List.member
     [CHR 0x09, CHR 0x0A, CHR 0x0B, CHR 0x0C, CHR 0x0D, CHR 0x20, CHR 0xA0] c"

definition isDecimalDigit :: "char \<Rightarrow> bool" where
  "isDecimalDigit c = (48 \<le> (of_char c :: nat) \<and> (of_char c :: nat) \<le> 57)"

text \<open>The value of a digit of radix up to 16, \<open>None\<close> for any other character.\<close>

definition digitValue :: "char \<Rightarrow> nat option" where
  "digitValue c = (let n = (of_char c :: nat) in
     if 48 \<le> n \<and> n \<le> 57 then Some (n - 48)
     else if 97 \<le> n \<and> n \<le> 102 then Some (n - 87)
     else if 65 \<le> n \<and> n \<le> 70 then Some (n - 55)
     else None)"

definition isRadixDigit :: "nat \<Rightarrow> char \<Rightarrow> bool" where
  "isRadixDigit R c = (case digitValue c of None \<Rightarrow> False | Some d \<Rightarrow> d < R)"

text \<open>The integer a sequence of digits denotes in radix \<open>R\<close>.\<close>

definition digitsValue :: "nat \<Rightarrow> string \<Rightarrow> nat" where
  "digitsValue R Z = foldl (\<lambda>acc c. acc * R + (case digitValue c of None \<Rightarrow> 0 | Some d \<Rightarrow> d)) 0 Z"

text \<open>An optional sign in front of a numeral: whether it is negative, and the rest.\<close>

fun stripSign :: "string \<Rightarrow> bool \<times> string" where
  "stripSign [] = (False, [])"
| "stripSign (c # r) =
     (if c = CHR ''-'' then (True, r) else if c = CHR ''+'' then (False, r) else (False, c # r))"

text \<open>
  \<open>parseInt(text)\<close> with no radix argument: radix 16 after a \<open>0x\<close> or \<open>0X\<close> prefix,
  radix 10 otherwise.
\<close>

definition parseInt :: "string \<Rightarrow> number" where
  "parseInt inputString =
     (let (neg, S) = stripSign (dropWhile isWhiteSpace inputString);
          hex = (take 2 S = ''0x'' \<or> take 2 S = ''0X'');
          R = (if hex then 16 else 10);
          Z = takeWhile (isRadixDigit R) (if hex then drop 2 S else S)
      in if Z = [] then NaN
         else Fin (of_int ((if neg then - 1 else 1) * int (digitsValue R Z))))"

text \<open>
  The decimal exponent written at the start of \<open>s\<close> (\<open>e\<close> or \<open>E\<close>, an optional sign,
  digits), or \<open>0\<close> when \<open>s\<close> does not start with a complete exponent part.
\<close>

fun exponentPart :: "string \<Rightarrow> int" where
  "exponentPart [] = 0"
| "exponentPart (c # r) =
     (if c = CHR ''e'' \<or> c = CHR ''E'' then
        (let (neg, ds) = stripSign r; E = takeWhile isDecimalDigit ds
         in if E = [] then 0
            else (if neg then - 1 else 1) * int (digitsValue 10 E))
      else 0)"

text \<open>
  \<open>parseFloat(text)\<close>: an optional sign, then \<open>Infinity\<close> or a decimal literal with
  optional fraction and exponent.
\<close>

definition parseFloat :: "string \<Rightarrow> number" where
  "parseFloat inputString =
     (let (neg, S) = stripSign (dropWhile isWhiteSpace inputString)
      in if take 8 S = ''Infinity'' then (if neg then NInf else PInf)
         else
           (let ip = takeWhile isDecimalDigit S;
                r1 = dropWhile isDecimalDigit S;
                dot = (r1 \<noteq> [] \<and> hd r1 = CHR ''.'');
                fp = (if dot then takeWhile isDecimalDigit (tl r1) else []);
                r2 = (if dot then dropWhile isDecimalDigit (tl r1) else r1)
            in if ip = [] \<and> fp = [] then NaN
               else
                 (let m = real (digitsValue 10 (ip @ fp)) / 10 ^ length fp;
                      e = exponentPart r2;
                      v = (if 0 \<le> e then m * 10 ^ nat e else m / 10 ^ nat (- e))
                  in Fin (if neg then - v else v))))"

section \<open>Data model\<close>

text \<open>
  The interfaces of the API module. An optional property (\<open>name?: T\<close>) and every
  property of a \<open>Partial\<close> form state is an \<open>option\<close>, \<open>None\<close> standing for
  \<open>undefined\<close>. The identifier property \<open>_id\<close> is written \<open>ident\<close>. Dates are held as
  text. Of \<open>Item\<close>, the properties the order screens never read (description, image,
  tags, price type, last update) are left out.
\<close>

datatype TrackingType = tracking_quantity | tracking_weight

datatype WeightUnit = unit_oz | unit_lb | unit_g | unit_kg

record Item =
  ident :: "string option"
  name :: string
  sku :: string
  category :: string
  quantity :: number
  price :: number
  trackingType :: "TrackingType option"
  weight :: "number option"
  weightUnit :: "WeightUnit option"

text \<open>A line refers to its item by identifier, or holds the item when populated.\<close>

datatype ItemRef = ItemId string | ItemObject Item

record SaleItem =
  item :: ItemRef
  quantity :: number
  priceAtSale :: number

datatype SalePaymentMethod = sale_cash | sale_credit | sale_debit | sale_check | sale_other

datatype SaleStatus = completed | refunded | partially_refunded

record Sale =
  ident :: "string option"
  customerName :: "string option"
  customerEmail :: "string option"
  customerPhone :: "string option"
  items :: "SaleItem list option"
  subtotal :: "number option"
  taxRate :: "number option"
  taxAmount :: "number option"
  discountAmount :: "number option"
  total :: "number option"
  paymentMethod :: "SalePaymentMethod option"
  "notes" :: "string option"
  status :: "SaleStatus option"

record PurchaseItem =
  item :: ItemRef
  quantity :: "number option"
  weight :: "number option"
  weightUnit :: "WeightUnit option"
  costPerUnit :: number
  totalCost :: number

record Supplier =
  name :: "string option"
  contactName :: "string option"
  email :: "string option"
  phone :: "string option"

datatype PurchasePaymentMethod =
  purchase_cash | purchase_credit | purchase_debit | purchase_check
  | purchase_bank_transfer | purchase_other

datatype PurchaseStatus = pending | received | partially_received | cancelled

record Purchase =
  ident :: "string option"
  supplier :: "Supplier option"
  items :: "PurchaseItem list option"
  invoiceNumber :: "string option"
  purchaseDate :: "string option"
  subtotal :: "number option"
  taxRate :: "number option"
  taxAmount :: "number option"
  shippingCost :: "number option"
  total :: "number option"
  "notes" :: "string option"
  paymentMethod :: "PurchasePaymentMethod option"
  status :: "PurchaseStatus option"

text \<open>
  The messages the screens put in their \<open>error\<close> state. The stock message quotes the
  item's on-hand quantity, kept here as the number.
\<close>

datatype Message =
  Please_select_an_item
  | Quantity_must_be_a_positive_number
  | Only_items_available_in_stock number
  | At_least_one_item_is_required
  | Sale_total_must_be_greater_than_zero
  | Supplier_name_is_required

section \<open>The New Sale screen\<close>

text \<open>
  The component's state, as far as the handlers below read or write it. An effect or a
  handler is a function from the state before to the state after; a functional update
  \<open>setFormData(prev => ...)\<close> is applied to the current form data.
\<close>

record NewSale =
  formData :: Sale
  selectedItem :: "Item option"
  selectedQuantity :: string
  saving :: bool
  error :: "Message option"

text \<open>The state the component is created with.\<close>

definition NewSale_initial :: NewSale where
  "NewSale_initial =
     \<lparr>NewSale.formData =
        \<lparr>Sale.ident = None,
         Sale.customerName = Some [],
         Sale.customerEmail = Some [],
         Sale.customerPhone = Some [],
         Sale.items = Some [],
         Sale.subtotal = Some (Fin 0),
         Sale.taxRate = Some (Fin 7.5),
         Sale.taxAmount = Some (Fin 0),
         Sale.discountAmount = Some (Fin 0),
         Sale.total = Some (Fin 0),
         Sale.paymentMethod = Some sale_cash,
         Sale.notes = Some [],
         Sale.status = Some completed\<rparr>,
      NewSale.selectedItem = None,
      NewSale.selectedQuantity = ''1'',
      NewSale.saving = False,
      NewSale.error = None\<rparr>"

text \<open>The effect that recalculates the totals when items, tax rate or discount change.\<close>

definition NewSale_totals_effect :: "Sale \<Rightarrow> Sale" where
  "NewSale_totals_effect form =
     (case Sale.items form of
        None \<Rightarrow>
          form\<lparr>Sale.subtotal := Some (Fin 0), Sale.taxAmount := Some (Fin 0),
            Sale.total := Some (Fin 0)\<rparr>
      | Some its \<Rightarrow>
          if length its = 0 then
            form\<lparr>Sale.subtotal := Some (Fin 0), Sale.taxAmount := Some (Fin 0),
              Sale.total := Some (Fin 0)\<rparr>
          else
            (let subtotal' =
                   foldl (\<lambda>sum item. sum + SaleItem.quantity item * SaleItem.priceAtSale item)
                     (Fin 0) its;
                 taxAmount' = subtotal' * (or_0 (Sale.taxRate form) / Fin 100);
                 total' = subtotal' + taxAmount' - or_0 (Sale.discountAmount form)
             in form\<lparr>Sale.subtotal := Some subtotal', Sale.taxAmount := Some taxAmount',
                  Sale.total := Some (if total' < Fin 0 then Fin 0 else total')\<rparr>))"

text \<open>
  The form fields of the screen that call \<open>handleTextChange\<close>. The handler writes the
  property the field names: for tax rate and discount the number \<open>parseFloat(value) || 0\<close>,
  for every other field the text.
\<close>

datatype SaleField =
  SF_customerName | SF_customerEmail | SF_customerPhone | SF_notes | SF_taxRate
  | SF_discountAmount

definition NewSale_handleTextChange :: "SaleField \<Rightarrow> string \<Rightarrow> Sale \<Rightarrow> Sale" where
  "NewSale_handleTextChange field val form =
     (case field of
        SF_taxRate \<Rightarrow>
          (let numValue = or_0 (Some (parseFloat val))
           in form\<lparr>Sale.taxRate := Some numValue\<rparr>)
      | SF_discountAmount \<Rightarrow>
          (let numValue = or_0 (Some (parseFloat val))
           in form\<lparr>Sale.discountAmount := Some numValue\<rparr>)
      | SF_customerName \<Rightarrow> form\<lparr>Sale.customerName := Some val\<rparr>
      | SF_customerEmail \<Rightarrow> form\<lparr>Sale.customerEmail := Some val\<rparr>
      | SF_customerPhone \<Rightarrow> form\<lparr>Sale.customerPhone := Some val\<rparr>
      | SF_notes \<Rightarrow> form\<lparr>Sale.notes := Some val\<rparr>)"

text \<open>The expression \<open>selectedItem._id || ''\<close>.\<close>

definition ident_or_empty :: "Item \<Rightarrow> string" where
  "ident_or_empty it = (case Item.ident it of None \<Rightarrow> [] | Some i \<Rightarrow> i)"

text \<open>The expression \<open>prev.items || []\<close>.\<close>

definition items_or_empty :: "'a list option \<Rightarrow> 'a list" where
  "items_or_empty xs = (case xs of None \<Rightarrow> [] | Some ys \<Rightarrow> ys)"

definition NewSale_handleAddItem :: "NewSale \<Rightarrow> NewSale" where
  "NewSale_handleAddItem st =
     (case NewSale.selectedItem st of
        None \<Rightarrow> st\<lparr>NewSale.error := Some Please_select_an_item\<rparr>
      | Some sel \<Rightarrow>
          (let quantity' = parseInt (NewSale.selectedQuantity st)
           in if isNaN quantity' \<or> quantity' \<le> Fin 0 then
                st\<lparr>NewSale.error := Some Quantity_must_be_a_positive_number\<rparr>
              else if Item.quantity sel < quantity' then
                st\<lparr>NewSale.error := Some (Only_items_available_in_stock (Item.quantity sel))\<rparr>
              else
                (let newItem =
                       \<lparr>SaleItem.item = ItemId (ident_or_empty sel),
                        SaleItem.quantity = quantity',
                        SaleItem.priceAtSale = Item.price sel\<rparr>
                 in st\<lparr>NewSale.formData :=
                         (NewSale.formData st)\<lparr>Sale.items :=
                            Some (items_or_empty (Sale.items (NewSale.formData st)) @ [newItem])\<rparr>,
                       NewSale.selectedItem := None,
                       NewSale.selectedQuantity := ''1'',
                       NewSale.error := None\<rparr>)))"

definition NewSale_validateForm :: "Sale \<Rightarrow> Message option" where
  "NewSale_validateForm form =
     (if Sale.items form = None \<or> length (items_or_empty (Sale.items form)) = 0 then
        Some At_least_one_item_is_required
      else if or_0 (Sale.total form) \<le> Fin 0 then
        Some Sale_total_must_be_greater_than_zero
      else None)"

text \<open>
  \<open>handleSubmit\<close> up to its request: the state after, and the sale handed to
  \<open>salesApi.create\<close> when the form is submitted (\<open>None\<close> when no request is made).
  What follows the answer of the server is outside the model.
\<close>

definition NewSale_handleSubmit :: "NewSale \<Rightarrow> NewSale \<times> Sale option" where
  "NewSale_handleSubmit st =
     (case NewSale_validateForm (NewSale.formData st) of
        Some validationError \<Rightarrow> (st\<lparr>NewSale.error := Some validationError\<rparr>, None)
      | None \<Rightarrow>
          (st\<lparr>NewSale.saving := True, NewSale.error := None\<rparr>, Some (NewSale.formData st)))"

section \<open>The Edit Purchase screen\<close>

text \<open>
  The component's state. The screen keeps the line total \<open>totalCost\<close> as the text
  \<open>toString\<close> gives for a number and reads it back with \<open>parseFloat\<close>; converting a
  number to text and back returns the number, so the state holds the number itself
  (the initial and reset text \<open>'0'\<close> is the number \<open>0\<close>).
\<close>

record EditPurchase =
  formData :: Purchase
  selectedItem :: "Item option"
  quantity :: string
  weight :: string
  weightUnit :: WeightUnit
  costPerUnit :: string
  totalCost :: number
  saving :: bool
  error :: "Message option"

text \<open>
  The state the component is created with; the form data is replaced by the purchase
  fetched from the server once it arrives.
\<close>

definition EditPurchase_initial :: EditPurchase where
  "EditPurchase_initial =
     \<lparr>EditPurchase.formData =
        \<lparr>Purchase.ident = None,
         Purchase.supplier =
           Some \<lparr>Supplier.name = Some [], Supplier.contactName = Some [],
                 Supplier.email = Some [], Supplier.phone = Some []\<rparr>,
         Purchase.items = Some [],
         Purchase.invoiceNumber = None,
         Purchase.purchaseDate = None,
         Purchase.subtotal = Some (Fin 0),
         Purchase.taxRate = Some (Fin 0),
         Purchase.taxAmount = Some (Fin 0),
         Purchase.shippingCost = Some (Fin 0),
         Purchase.total = Some (Fin 0),
         Purchase.notes = None,
         Purchase.paymentMethod = Some purchase_cash,
         Purchase.status = Some received\<rparr>,
      EditPurchase.selectedItem = None,
      EditPurchase.quantity = ''1'',
      EditPurchase.weight = ''0'',
      EditPurchase.weightUnit = unit_lb,
      EditPurchase.costPerUnit = ''0'',
      EditPurchase.totalCost = Fin 0,
      EditPurchase.saving = False,
      EditPurchase.error = None\<rparr>"

text \<open>The effect that recalculates the totals when items, tax rate or shipping change.\<close>

definition EditPurchase_totals_effect :: "Purchase \<Rightarrow> Purchase" where
  "EditPurchase_totals_effect form =
     (case Purchase.items form of
        None \<Rightarrow>
          form\<lparr>Purchase.subtotal := Some (Fin 0), Purchase.taxAmount := Some (Fin 0),
            Purchase.total := Some (Fin 0)\<rparr>
      | Some its \<Rightarrow>
          if length its = 0 then
            form\<lparr>Purchase.subtotal := Some (Fin 0), Purchase.taxAmount := Some (Fin 0),
              Purchase.total := Some (Fin 0)\<rparr>
          else
            (let subtotal' = foldl (\<lambda>sum item. sum + PurchaseItem.totalCost item) (Fin 0) its;
                 taxAmount' = subtotal' * (or_0 (Purchase.taxRate form) / Fin 100);
                 shippingCost' = or_0 (Purchase.shippingCost form);
                 total' = subtotal' + taxAmount' + shippingCost'
             in form\<lparr>Purchase.subtotal := Some subtotal', Purchase.taxAmount := Some taxAmount',
                  Purchase.total := Some total'\<rparr>))"

text \<open>The expression \<open>costPerUnit || '0'\<close>: the empty text is the only falsy text.\<close>

definition or_text_0 :: "string \<Rightarrow> string" where
  "or_text_0 s = (if s = [] then ''0'' else s)"

text \<open>
  The effect that updates the line total when quantity, weight, unit or cost per unit
  change. It does nothing while no item is selected.
\<close>

definition EditPurchase_lineTotal_effect :: "EditPurchase \<Rightarrow> EditPurchase" where
  "EditPurchase_lineTotal_effect st =
     (case EditPurchase.selectedItem st of
        None \<Rightarrow> st
      | Some sel \<Rightarrow>
          if Item.trackingType sel = Some tracking_weight then
            st\<lparr>EditPurchase.totalCost :=
                 parseFloat (EditPurchase.weight st)
                 * parseFloat (or_text_0 (EditPurchase.costPerUnit st))\<rparr>
          else
            st\<lparr>EditPurchase.totalCost :=
                 parseInt (EditPurchase.quantity st)
                 * parseFloat (or_text_0 (EditPurchase.costPerUnit st))\<rparr>)"

text \<open>
  The form fields of the screen that call \<open>handleTextChange\<close>: the four of the
  supplier (\<open>supplier.name\<close> and so on), tax rate and shipping cost, stored as the number
  \<open>parseFloat(value) || 0\<close>, and the other text fields.
\<close>

datatype PurchaseField =
  PF_supplier_name | PF_supplier_contactName | PF_supplier_email | PF_supplier_phone
  | PF_invoiceNumber | PF_purchaseDate | PF_notes | PF_taxRate | PF_shippingCost

text \<open>
  The supplier object spread by \<open>{...prev.supplier, [supplierField]: value}\<close>: an
  absent supplier spreads to no property.
\<close>

definition supplier_or_empty :: "Supplier option \<Rightarrow> Supplier" where
  "supplier_or_empty s =
     (case s of
        None \<Rightarrow> \<lparr>Supplier.name = None, Supplier.contactName = None, Supplier.email = None,
                 Supplier.phone = None\<rparr>
      | Some v \<Rightarrow> v)"

definition EditPurchase_handleTextChange ::
  "PurchaseField \<Rightarrow> string \<Rightarrow> Purchase \<Rightarrow> Purchase" where
  "EditPurchase_handleTextChange field val form =
     (case field of
        PF_supplier_name \<Rightarrow>
          form\<lparr>Purchase.supplier :=
            Some ((supplier_or_empty (Purchase.supplier form))\<lparr>Supplier.name := Some val\<rparr>)\<rparr>
      | PF_supplier_contactName \<Rightarrow>
          form\<lparr>Purchase.supplier :=
            Some ((supplier_or_empty (Purchase.supplier form))\<lparr>Supplier.contactName := Some val\<rparr>)\<rparr>
      | PF_supplier_email \<Rightarrow>
          form\<lparr>Purchase.supplier :=
            Some ((supplier_or_empty (Purchase.supplier form))\<lparr>Supplier.email := Some val\<rparr>)\<rparr>
      | PF_supplier_phone \<Rightarrow>
          form\<lparr>Purchase.supplier :=
            Some ((supplier_or_empty (Purchase.supplier form))\<lparr>Supplier.phone := Some val\<rparr>)\<rparr>
      | PF_taxRate \<Rightarrow> form\<lparr>Purchase.taxRate := Some (or_0 (Some (parseFloat val)))\<rparr>
      | PF_shippingCost \<Rightarrow> form\<lparr>Purchase.shippingCost := Some (or_0 (Some (parseFloat val)))\<rparr>
      | PF_invoiceNumber \<Rightarrow> form\<lparr>Purchase.invoiceNumber := Some val\<rparr>
      | PF_purchaseDate \<Rightarrow> form\<lparr>Purchase.purchaseDate := Some val\<rparr>
      | PF_notes \<Rightarrow> form\<lparr>Purchase.notes := Some val\<rparr>)"

definition EditPurchase_handleAddItem :: "EditPurchase \<Rightarrow> EditPurchase" where
  "EditPurchase_handleAddItem st =
     (case EditPurchase.selectedItem st of
        None \<Rightarrow> st
      | Some sel \<Rightarrow>
          (let newItem0 =
                 \<lparr>PurchaseItem.item = ItemId (ident_or_empty sel),
                  PurchaseItem.quantity = None,
                  PurchaseItem.weight = None,
                  PurchaseItem.weightUnit = None,
                  PurchaseItem.costPerUnit = parseFloat (EditPurchase.costPerUnit st),
                  PurchaseItem.totalCost = EditPurchase.totalCost st\<rparr>;
               newItem =
                 (if Item.trackingType sel = Some tracking_weight then
                    newItem0\<lparr>PurchaseItem.weight := Some (parseFloat (EditPurchase.weight st)),
                      PurchaseItem.weightUnit := Some (EditPurchase.weightUnit st)\<rparr>
                  else
                    newItem0\<lparr>PurchaseItem.quantity := Some (parseInt (EditPurchase.quantity st))\<rparr>)
           in st\<lparr>EditPurchase.formData :=
                   (EditPurchase.formData st)\<lparr>Purchase.items :=
                      Some (items_or_empty (Purchase.items (EditPurchase.formData st)) @ [newItem])\<rparr>,
                 EditPurchase.selectedItem := None,
                 EditPurchase.quantity := ''1'',
                 EditPurchase.weight := ''0'',
                 EditPurchase.costPerUnit := ''0'',
                 EditPurchase.totalCost := Fin 0\<rparr>))"

text \<open>The test \<open>!formData.supplier?.name\<close>: no supplier, no name, or the empty name.\<close>

definition supplier_name_missing :: "Purchase \<Rightarrow> bool" where
  "supplier_name_missing form =
     (case Purchase.supplier form of
        None \<Rightarrow> True
      | Some s \<Rightarrow> (case Supplier.name s of None \<Rightarrow> True | Some n \<Rightarrow> n = []))"

text \<open>
  \<open>handleSave\<close> up to its request: the state after, and the purchase handed to
  \<open>purchasesApi.update\<close> when the form is submitted (\<open>None\<close> when no request is made).
\<close>

definition EditPurchase_handleSave :: "EditPurchase \<Rightarrow> EditPurchase \<times> Purchase option" where
  "EditPurchase_handleSave st =
     (if supplier_name_missing (EditPurchase.formData st) then
        (st\<lparr>EditPurchase.error := Some Supplier_name_is_required\<rparr>, None)
      else if length (items_or_empty (Purchase.items (EditPurchase.formData st))) = 0 then
        (st\<lparr>EditPurchase.error := Some At_least_one_item_is_required\<rparr>, None)
      else
        (st\<lparr>EditPurchase.saving := True, EditPurchase.error := None\<rparr>,
         Some (EditPurchase.formData st)))"

section \<open>Sample documents\<close>

text \<open>A finite number that is a whole number above zero.\<close>

fun positive_integer :: "number \<Rightarrow> bool" where
  "positive_integer (Fin r) = (0 < r \<and> r = of_int \<lfloor>r\<rfloor>)"
| "positive_integer NaN = False"
| "positive_integer PInf = False"
| "positive_integer NInf = False"

text \<open>Two catalogue items: one tracked by quantity with five on hand, one by weight.\<close>

definition widget :: Item where
  "widget =
     \<lparr>Item.ident = Some ''w1'', Item.name = ''Widget'', Item.sku = ''W-1'',
      Item.category = ''Parts'', Item.quantity = Fin 5, Item.price = Fin 10,
      Item.trackingType = Some tracking_quantity, Item.weight = None,
      Item.weightUnit = None\<rparr>"

definition flour :: Item where
  "flour =
     \<lparr>Item.ident = Some ''f1'', Item.name = ''Flour'', Item.sku = ''F-1'',
      Item.category = ''Food'', Item.quantity = Fin 0, Item.price = Fin 2,
      Item.trackingType = Some tracking_weight, Item.weight = Some (Fin 40),
      Item.weightUnit = Some unit_lb\<rparr>"

text \<open>A sale line and a purchase line of the widget.\<close>

definition sale_line :: "real \<Rightarrow> real \<Rightarrow> SaleItem" where
  "sale_line q p =
     \<lparr>SaleItem.item = ItemId ''w1'', SaleItem.quantity = Fin q, SaleItem.priceAtSale = Fin p\<rparr>"

definition purchase_line :: "real \<Rightarrow> real \<Rightarrow> PurchaseItem" where
  "purchase_line q c =
     \<lparr>PurchaseItem.item = ItemId ''w1'', PurchaseItem.quantity = Some (Fin q),
      PurchaseItem.weight = None, PurchaseItem.weightUnit = None,
      PurchaseItem.costPerUnit = Fin c, PurchaseItem.totalCost = Fin (q * c)\<rparr>"

text \<open>The initial forms with the given lines, tax rate and discount or shipping cost.\<close>

definition sale_form :: "SaleItem list \<Rightarrow> real \<Rightarrow> real \<Rightarrow> Sale" where
  "sale_form its rate discount =
     (NewSale.formData NewSale_initial)
       \<lparr>Sale.items := Some its, Sale.taxRate := Some (Fin rate),
        Sale.discountAmount := Some (Fin discount)\<rparr>"

definition purchase_form :: "PurchaseItem list \<Rightarrow> real \<Rightarrow> real \<Rightarrow> Purchase" where
  "purchase_form its rate shipping =
     (EditPurchase.formData EditPurchase_initial)
       \<lparr>Purchase.items := Some its, Purchase.taxRate := Some (Fin rate),
        Purchase.shippingCost := Some (Fin shipping)\<rparr>"

text \<open>
  The scenarios of the specification: a sale of two lines, a sale whose discount exceeds
  what is due, and a purchase with shipping.
\<close>

definition scenario_A :: Sale where
  "scenario_A = sale_form [sale_line 2 10, sale_line 1 5] 7.5 2"

definition scenario_B :: Sale where
  "scenario_B = sale_form [sale_line 1 1] 0 50"

definition scenario_C :: Purchase where
  "scenario_C = purchase_form [purchase_line 10 2.5] 5 12"

text \<open>The New Sale screen with the widget selected and a quantity typed.\<close>

definition sale_entry :: "string \<Rightarrow> NewSale" where
  "sale_entry q = NewSale_initial\<lparr>NewSale.selectedItem := Some widget, NewSale.selectedQuantity := q\<rparr>"

text \<open>
  The Edit Purchase screen with an item selected and its entry fields typed, after the
  line-total effect has run on them.
\<close>

definition purchase_entry :: "Item \<Rightarrow> string \<Rightarrow> string \<Rightarrow> string \<Rightarrow> EditPurchase" where
  "purchase_entry sel q w c =
     EditPurchase_lineTotal_effect
       (EditPurchase_initial
          \<lparr>EditPurchase.selectedItem := Some sel, EditPurchase.quantity := q,
           EditPurchase.weight := w, EditPurchase.costPerUnit := c\<rparr>)"

text \<open>The screens holding a given form, and a purchase form with its supplier named.\<close>

definition sale_screen :: "Sale \<Rightarrow> NewSale" where
  "sale_screen form = NewSale_initial\<lparr>NewSale.formData := form\<rparr>"

definition purchase_screen :: "Purchase \<Rightarrow> EditPurchase" where
  "purchase_screen form = EditPurchase_initial\<lparr>EditPurchase.formData := form\<rparr>"

definition from_Acme :: "Purchase \<Rightarrow> Purchase" where
  "from_Acme form = EditPurchase_handleTextChange PF_supplier_name ''Acme'' form"

text \<open>The line the Edit Purchase screen builds for the widget.\<close>

definition widget_line :: "number \<Rightarrow> number \<Rightarrow> number \<Rightarrow> PurchaseItem" where
  "widget_line q c t =
     \<lparr>PurchaseItem.item = ItemId ''w1'', PurchaseItem.quantity = Some q,
      PurchaseItem.weight = None, PurchaseItem.weightUnit = None,
      PurchaseItem.costPerUnit = c, PurchaseItem.totalCost = t\<rparr>"

text \<open>The line it builds for the flour, weighed in pounds.\<close>

definition flour_line :: "number \<Rightarrow> number \<Rightarrow> number \<Rightarrow> PurchaseItem" where
  "flour_line w c t =
     \<lparr>PurchaseItem.item = ItemId ''f1'', PurchaseItem.quantity = None,
      PurchaseItem.weight = Some w, PurchaseItem.weightUnit = Some unit_lb,
      PurchaseItem.costPerUnit = c, PurchaseItem.totalCost = t\<rparr>"

text \<open>
  The New Sale screen holding a given form with the widget selected and a quantity typed.
\<close>

definition sale_entry_on :: "Sale \<Rightarrow> string \<Rightarrow> NewSale" where
  "sale_entry_on form q =
     NewSale_initial\<lparr>NewSale.formData := form, NewSale.selectedItem := Some widget,
       NewSale.selectedQuantity := q\<rparr>"

text \<open>
  The Edit Purchase screen holding a given form, with an item selected and its entry
  fields typed, after the line-total effect has run on them.
\<close>

definition purchase_entry_on ::
  "Purchase \<Rightarrow> Item \<Rightarrow> string \<Rightarrow> string \<Rightarrow> string \<Rightarrow> EditPurchase" where
  "purchase_entry_on form sel q w c =
     EditPurchase_lineTotal_effect
       (EditPurchase_initial
          \<lparr>EditPurchase.formData := form, EditPurchase.selectedItem := Some sel,
           EditPurchase.quantity := q, EditPurchase.weight := w,
           EditPurchase.costPerUnit := c\<rparr>)"

text \<open>A sale with no line after the text -5 is typed in its discount field.\<close>

definition sale_discount_minus_5 :: Sale where
  "sale_discount_minus_5 = NewSale_handleTextChange SF_discountAmount ''-5'' (sale_form [] 7.5 0)"

text \<open>
  A sale of one widget after the text Infinity is typed in its tax-rate and discount
  fields and the totals are recalculated.
\<close>

definition sale_infinite_rates :: Sale where
  "sale_infinite_rates =
     NewSale_totals_effect
       (NewSale_handleTextChange SF_discountAmount ''Infinity''
          (NewSale_handleTextChange SF_taxRate ''Infinity'' (sale_form [sale_line 1 10] 0 0)))"

text \<open>A purchase form after two spaces are typed as the supplier's name.\<close>

definition from_spaces :: "Purchase \<Rightarrow> Purchase" where
  "from_spaces form = EditPurchase_handleTextChange PF_supplier_name ''  '' form"

section \<open>Auxiliary facts\<close>

text \<open>The clamp of the sale total is \<open>Math.max(0, total)\<close>, and its result is never negative.\<close>

lemma Math_max_clamp: "(if x < Fin 0 then Fin 0 else x) = Math_max (Fin 0) x"
  by (cases x) (auto simp: Math_max_def isNaN_def)

lemma clamp_not_negative: "\<not> (if x < Fin 0 then Fin 0 else x) < Fin 0"
  by (cases x) auto

text \<open>
  \<open>v || 0\<close> is never \<open>NaN\<close>, is \<open>v\<close> for a number that is not \<open>NaN\<close>, and is
  \<open>0\<close> for an absent or \<open>NaN\<close> value; with no line and a discount that is not
  negative the clamp formula gives the \<open>0\<close> the short-circuit stores.
\<close>

lemma or_0_not_NaN: "or_0 v \<noteq> NaN"
  by (cases v; cases "the v") auto

lemma or_0_Some: "d \<noteq> NaN \<Longrightarrow> or_0 (Some d) = d"
  by (cases d) auto

lemma or_0_absent: "v = None \<or> v = Some NaN \<Longrightarrow> or_0 v = Fin 0"
  by auto

lemma empty_sale_formula:
  "\<not> D < Fin 0 \<Longrightarrow> D \<noteq> NaN \<Longrightarrow> Math_max (Fin 0) (Fin 0 + Fin 0 - D) = Fin 0"
  by (cases D) (auto simp: Math_max_def isNaN_def)

text \<open>\<open>parseInt\<close> returns \<open>NaN\<close> or a whole number.\<close>

lemma if_NaN_or_int:
  "(if b then NaN else Fin (of_int E)) = NaN
   \<or> (\<exists>k::int. (if b then NaN else Fin (of_int E)) = Fin (of_int k))"
  by (cases b) (simp, simp only: if_False, blast)

lemma parseInt_cases: "parseInt s = NaN \<or> (\<exists>k::int. parseInt s = Fin (of_int k))"
proof -
  obtain neg S where ns: "stripSign (dropWhile isWhiteSpace s) = (neg, S)"
    by (cases "stripSign (dropWhile isWhiteSpace s)")
  show ?thesis
    unfolding parseInt_def Let_def ns prod.case by (rule if_NaN_or_int)
qed

lemma parseInt_not_positive:
  "(isNaN (parseInt s) \<or> parseInt s \<le> Fin 0) = (\<not> positive_integer (parseInt s))"
  using parseInt_cases [of s] by (auto simp: isNaN_def)

text \<open>The parsers on the texts of the examples.\<close>

lemma parseInt_2: "parseInt ''2'' = Fin 2"
  by (simp add: parseInt_def isWhiteSpace_def isRadixDigit_def digitValue_def digitsValue_def)

lemma parseInt_0: "parseInt ''0'' = Fin 0"
  by (simp add: parseInt_def isWhiteSpace_def isRadixDigit_def digitValue_def digitsValue_def)

lemma parseInt_6: "parseInt ''6'' = Fin 6"
  by (simp add: parseInt_def isWhiteSpace_def isRadixDigit_def digitValue_def digitsValue_def)

lemma parseInt_abc: "parseInt ''abc'' = NaN"
  by (simp add: parseInt_def isWhiteSpace_def isRadixDigit_def digitValue_def digitsValue_def)

lemma parseInt_empty: "parseInt [] = NaN"
  by (simp add: parseInt_def)

lemma parseFloat_minus_5: "parseFloat ''-5'' = Fin (- 5)"
  by (simp add: parseFloat_def isWhiteSpace_def isDecimalDigit_def digitValue_def digitsValue_def)

lemma parseFloat_Infinity: "parseFloat ''Infinity'' = PInf"
  by (simp add: parseFloat_def isWhiteSpace_def)

lemma parseInt_minus_2: "parseInt ''-2'' = Fin (- 2)"
  by (simp add: parseInt_def isWhiteSpace_def isRadixDigit_def digitValue_def digitsValue_def)

lemma parseFloat_3: "parseFloat ''3'' = Fin 3"
  by (simp add: parseFloat_def isWhiteSpace_def isDecimalDigit_def digitValue_def digitsValue_def)

lemma parseFloat_0: "parseFloat ''0'' = Fin 0"
  by (simp add: parseFloat_def isWhiteSpace_def isDecimalDigit_def digitValue_def digitsValue_def)

lemma parseFloat_abc: "parseFloat ''abc'' = NaN"
  by (simp add: parseFloat_def isWhiteSpace_def isDecimalDigit_def)

lemma parseFloat_empty: "parseFloat [] = NaN"
  by (simp add: parseFloat_def)

section \<open>The totals of a document\<close>

text \<open>
  Claim C1, as stated, fails on a sale with no line and a negative discount: with the
  text -5 in the discount field the totals effect stores subtotal 0, tax amount 0 and
  total 0, while the larger of \<open>0\<close> and \<open>0 + 0 - (-5)\<close> is 5.
\<close>

theorem empty_sale_negative_discount_total:
  "Sale.items sale_discount_minus_5 = Some []
   \<and> Sale.discountAmount sale_discount_minus_5 = Some (Fin (- 5))
   \<and> Sale.subtotal (NewSale_totals_effect sale_discount_minus_5) = Some (Fin 0)
   \<and> Sale.taxAmount (NewSale_totals_effect sale_discount_minus_5) = Some (Fin 0)
   \<and> Sale.total (NewSale_totals_effect sale_discount_minus_5) = Some (Fin 0)
   \<and> Math_max (Fin 0) (Fin 0 + Fin 0 - Fin (- 5)) = Fin 5"
  by (simp add: sale_discount_minus_5_def sale_form_def NewSale_handleTextChange_def
      NewSale_totals_effect_def parseFloat_minus_5 Math_max_def isNaN_def)

text \<open>
  Claim C1, amended. The total the sale's totals effect stores is never below zero.
  Whenever the sale has a line, or the discount is not negative, the effect stores a
  subtotal \<open>s\<close> and a tax amount \<open>t\<close> and the total it stores is the larger of \<open>0\<close>
  and \<open>s + t - discountAmount\<close>, in the code's own operations on the stored values,
  also when the discount exceeds \<open>s + t\<close>; an absent or \<open>NaN\<close> discount is read as
  \<open>0\<close>. With no line the total stored is 0 whatever the discount.
\<close>

theorem sale_total_clamped:
  "(\<exists>tot. Sale.total (NewSale_totals_effect form) = Some tot \<and> \<not> tot < Fin 0)
   \<and> (\<forall>d. Sale.discountAmount form = Some d \<and> d \<noteq> NaN
          \<and> ((\<exists>line its. Sale.items form = Some (line # its)) \<or> \<not> d < Fin 0) \<longrightarrow>
        (\<exists>s t. Sale.subtotal (NewSale_totals_effect form) = Some s
           \<and> Sale.taxAmount (NewSale_totals_effect form) = Some t
           \<and> Sale.total (NewSale_totals_effect form) = Some (Math_max (Fin 0) (s + t - d))))
   \<and> (Sale.discountAmount form = None \<or> Sale.discountAmount form = Some NaN \<longrightarrow>
        (\<exists>s t. Sale.subtotal (NewSale_totals_effect form) = Some s
           \<and> Sale.taxAmount (NewSale_totals_effect form) = Some t
           \<and> Sale.total (NewSale_totals_effect form) = Some (Math_max (Fin 0) (s + t - Fin 0))))
   \<and> (Sale.items form = None \<or> Sale.items form = Some [] \<longrightarrow>
        Sale.total (NewSale_totals_effect form) = Some (Fin 0))"
proof -
  have rule: "\<exists>s t. Sale.subtotal (NewSale_totals_effect form) = Some s
           \<and> Sale.taxAmount (NewSale_totals_effect form) = Some t
           \<and> Sale.total (NewSale_totals_effect form)
               = Some (Math_max (Fin 0) (s + t - or_0 (Sale.discountAmount form)))"
    if "(\<exists>line its. Sale.items form = Some (line # its))
        \<or> \<not> or_0 (Sale.discountAmount form) < Fin 0"
  proof (cases "\<exists>line its. Sale.items form = Some (line # its)")
    case True
    then show ?thesis
      by (auto simp: NewSale_totals_effect_def Let_def Math_max_clamp [symmetric])
  next
    case False
    then have e: "Sale.items form = None \<or> Sale.items form = Some []"
      by (cases "Sale.items form"; cases "the (Sale.items form)") auto
    from False that have d: "\<not> or_0 (Sale.discountAmount form) < Fin 0"
      by blast
    have m: "Math_max (Fin 0) (Fin 0 + Fin 0 - or_0 (Sale.discountAmount form)) = Fin 0"
      using d by (rule empty_sale_formula) (rule or_0_not_NaN)
    show ?thesis
      using e m by (auto simp: NewSale_totals_effect_def)
  qed
  have nonneg: "\<exists>tot. Sale.total (NewSale_totals_effect form) = Some tot \<and> \<not> tot < Fin 0"
    by (cases "Sale.items form")
       (simp_all add: NewSale_totals_effect_def Let_def clamp_not_negative)
  have given: "\<forall>d. Sale.discountAmount form = Some d \<and> d \<noteq> NaN
          \<and> ((\<exists>line its. Sale.items form = Some (line # its)) \<or> \<not> d < Fin 0) \<longrightarrow>
        (\<exists>s t. Sale.subtotal (NewSale_totals_effect form) = Some s
           \<and> Sale.taxAmount (NewSale_totals_effect form) = Some t
           \<and> Sale.total (NewSale_totals_effect form) = Some (Math_max (Fin 0) (s + t - d)))"
    using rule by (auto simp: or_0_Some simp del: or_0.simps)
  have absent: "Sale.discountAmount form = None \<or> Sale.discountAmount form = Some NaN \<longrightarrow>
        (\<exists>s t. Sale.subtotal (NewSale_totals_effect form) = Some s
           \<and> Sale.taxAmount (NewSale_totals_effect form) = Some t
           \<and> Sale.total (NewSale_totals_effect form) = Some (Math_max (Fin 0) (s + t - Fin 0)))"
  proof
    assume a: "Sale.discountAmount form = None \<or> Sale.discountAmount form = Some NaN"
    then have z: "or_0 (Sale.discountAmount form) = Fin 0" by (rule or_0_absent)
    from rule [unfolded z] show "\<exists>s t. Sale.subtotal (NewSale_totals_effect form) = Some s
           \<and> Sale.taxAmount (NewSale_totals_effect form) = Some t
           \<and> Sale.total (NewSale_totals_effect form) = Some (Math_max (Fin 0) (s + t - Fin 0))"
      by simp
  qed
  have empty: "Sale.items form = None \<or> Sale.items form = Some [] \<longrightarrow>
        Sale.total (NewSale_totals_effect form) = Some (Fin 0)"
    by (auto simp: NewSale_totals_effect_def)
  from nonneg given absent empty show ?thesis by blast
qed

text \<open>
  The sale whose discount of 50 exceeds its subtotal of 1: the total is 0, not -49. One
  line of 2 at 10 with discount 5: total 15; with the discount absent: total 20. The sale
  with no line and discount 3: total 0.
\<close>

theorem sale_total_clamped_witness:
  "Sale.items scenario_B = Some [sale_line 1 1]
   \<and> Sale.discountAmount scenario_B = Some (Fin 50)
   \<and> Sale.subtotal (NewSale_totals_effect scenario_B) = Some (Fin 1)
   \<and> Sale.taxAmount (NewSale_totals_effect scenario_B) = Some (Fin 0)
   \<and> Sale.total (NewSale_totals_effect scenario_B) = Some (Fin 0)
   \<and> Math_max (Fin 0) (Fin 1 + Fin 0 - Fin 50) = Fin 0
   \<and> Sale.total (NewSale_totals_effect (sale_form [sale_line 2 10] 0 5)) = Some (Fin 15)
   \<and> Sale.total (NewSale_totals_effect
         ((sale_form [sale_line 2 10] 0 5)\<lparr>Sale.discountAmount := None\<rparr>)) = Some (Fin 20)
   \<and> Sale.items (sale_form [] 7.5 3) = Some []
   \<and> \<not> Fin 3 < Fin 0
   \<and> Sale.total (NewSale_totals_effect (sale_form [] 7.5 3)) = Some (Fin 0)"
  using sale_total_clamped [of scenario_B]
    sale_total_clamped [of "sale_form [sale_line 2 10] 0 5"]
    sale_total_clamped [of "(sale_form [sale_line 2 10] 0 5)\<lparr>Sale.discountAmount := None\<rparr>"]
    sale_total_clamped [of "sale_form [] 7.5 3"]
  by (simp add: scenario_B_def sale_form_def sale_line_def NewSale_initial_def
      NewSale_totals_effect_def Let_def Math_max_def isNaN_def)




text \<open>
  Claim C4. With no line (the sequence empty or absent), the totals effect stores
  subtotal 0, tax amount 0 and total 0, for a sale and for a purchase, whatever the tax
  rate, discount and shipping cost are.
\<close>

theorem empty_document_totals_zero:
  "(Sale.items sale = None \<or> Sale.items sale = Some [] \<longrightarrow>
      Sale.subtotal (NewSale_totals_effect sale) = Some (Fin 0)
      \<and> Sale.taxAmount (NewSale_totals_effect sale) = Some (Fin 0)
      \<and> Sale.total (NewSale_totals_effect sale) = Some (Fin 0))
   \<and> (Purchase.items purchase = None \<or> Purchase.items purchase = Some [] \<longrightarrow>
      Purchase.subtotal (EditPurchase_totals_effect purchase) = Some (Fin 0)
      \<and> Purchase.taxAmount (EditPurchase_totals_effect purchase) = Some (Fin 0)
      \<and> Purchase.total (EditPurchase_totals_effect purchase) = Some (Fin 0))"
  by (auto simp: NewSale_totals_effect_def EditPurchase_totals_effect_def)

text \<open>An empty sale with 7.5 percent tax and discount 3, an empty purchase with shipping 12.\<close>

theorem empty_document_totals_zero_witness:
  "Sale.items (sale_form [] 7.5 3) = Some []
   \<and> Sale.taxRate (sale_form [] 7.5 3) = Some (Fin 7.5)
   \<and> Sale.discountAmount (sale_form [] 7.5 3) = Some (Fin 3)
   \<and> Sale.subtotal (NewSale_totals_effect (sale_form [] 7.5 3)) = Some (Fin 0)
   \<and> Sale.taxAmount (NewSale_totals_effect (sale_form [] 7.5 3)) = Some (Fin 0)
   \<and> Sale.total (NewSale_totals_effect (sale_form [] 7.5 3)) = Some (Fin 0)
   \<and> Purchase.items (purchase_form [] 5 12) = Some []
   \<and> Purchase.shippingCost (purchase_form [] 5 12) = Some (Fin 12)
   \<and> Purchase.subtotal (EditPurchase_totals_effect (purchase_form [] 5 12)) = Some (Fin 0)
   \<and> Purchase.taxAmount (EditPurchase_totals_effect (purchase_form [] 5 12)) = Some (Fin 0)
   \<and> Purchase.total (EditPurchase_totals_effect (purchase_form [] 5 12)) = Some (Fin 0)"
  using empty_document_totals_zero [of "sale_form [] 7.5 3" "purchase_form [] 5 12"]
  by (simp add: sale_form_def purchase_form_def)

text \<open>
  Claim C10. Each totals effect returns the form it was given with the three fields
  subtotal, tax amount and total written and nothing else: every other field of the sale
  and of the purchase is as before.
\<close>

theorem totals_effect_frame:
  "(\<exists>s t tot. NewSale_totals_effect sale
       = sale\<lparr>Sale.subtotal := s, Sale.taxAmount := t, Sale.total := tot\<rparr>)
   \<and> Sale.ident (NewSale_totals_effect sale) = Sale.ident sale
   \<and> Sale.customerName (NewSale_totals_effect sale) = Sale.customerName sale
   \<and> Sale.customerEmail (NewSale_totals_effect sale) = Sale.customerEmail sale
   \<and> Sale.customerPhone (NewSale_totals_effect sale) = Sale.customerPhone sale
   \<and> Sale.items (NewSale_totals_effect sale) = Sale.items sale
   \<and> Sale.taxRate (NewSale_totals_effect sale) = Sale.taxRate sale
   \<and> Sale.discountAmount (NewSale_totals_effect sale) = Sale.discountAmount sale
   \<and> Sale.paymentMethod (NewSale_totals_effect sale) = Sale.paymentMethod sale
   \<and> Sale.notes (NewSale_totals_effect sale) = Sale.notes sale
   \<and> Sale.status (NewSale_totals_effect sale) = Sale.status sale
   \<and> (\<exists>s t tot. EditPurchase_totals_effect purchase
       = purchase\<lparr>Purchase.subtotal := s, Purchase.taxAmount := t, Purchase.total := tot\<rparr>)
   \<and> Purchase.ident (EditPurchase_totals_effect purchase) = Purchase.ident purchase
   \<and> Purchase.supplier (EditPurchase_totals_effect purchase) = Purchase.supplier purchase
   \<and> Purchase.items (EditPurchase_totals_effect purchase) = Purchase.items purchase
   \<and> Purchase.invoiceNumber (EditPurchase_totals_effect purchase) = Purchase.invoiceNumber purchase
   \<and> Purchase.purchaseDate (EditPurchase_totals_effect purchase) = Purchase.purchaseDate purchase
   \<and> Purchase.taxRate (EditPurchase_totals_effect purchase) = Purchase.taxRate purchase
   \<and> Purchase.shippingCost (EditPurchase_totals_effect purchase) = Purchase.shippingCost purchase
   \<and> Purchase.notes (EditPurchase_totals_effect purchase) = Purchase.notes purchase
   \<and> Purchase.paymentMethod (EditPurchase_totals_effect purchase) = Purchase.paymentMethod purchase
   \<and> Purchase.status (EditPurchase_totals_effect purchase) = Purchase.status purchase"
proof -
  have sale: "\<exists>s t tot. NewSale_totals_effect sale
       = sale\<lparr>Sale.subtotal := s, Sale.taxAmount := t, Sale.total := tot\<rparr>"
    unfolding NewSale_totals_effect_def Let_def
    by (cases "Sale.items sale") (simp, blast, simp, blast)
  have purchase: "\<exists>s t tot. EditPurchase_totals_effect purchase
       = purchase\<lparr>Purchase.subtotal := s, Purchase.taxAmount := t, Purchase.total := tot\<rparr>"
    unfolding EditPurchase_totals_effect_def Let_def
    by (cases "Purchase.items purchase") (simp, blast, simp, blast)
  from sale obtain s t tot where
    s: "NewSale_totals_effect sale
          = sale\<lparr>Sale.subtotal := s, Sale.taxAmount := t, Sale.total := tot\<rparr>"
    by blast
  from purchase obtain s' t' tot' where
    p: "EditPurchase_totals_effect purchase
          = purchase\<lparr>Purchase.subtotal := s', Purchase.taxAmount := t', Purchase.total := tot'\<rparr>"
    by blast
  show ?thesis
    using sale purchase by (simp add: s p)
qed

section \<open>Adding a line and submitting\<close>

text \<open>
  Claim C7. Adding a line to a sale is rejected (an error message is set) exactly when
  no item is selected, or the quantity parsed from the text is not a whole number above
  zero, or it exceeds the selected item's on-hand quantity. A rejection leaves the form
  data, and so the lines, as they were. Otherwise the form data change in their lines
  only: the lines already there are kept in order and one line is put after them, holding
  the selected item's identifier, the parsed quantity, and the item's current price as
  price at sale.
\<close>

theorem sale_add_item_validation:
  "(NewSale.error (NewSale_handleAddItem st) \<noteq> None)
     = (NewSale.selectedItem st = None
        \<or> \<not> positive_integer (parseInt (NewSale.selectedQuantity st))
        \<or> (\<exists>sel. NewSale.selectedItem st = Some sel
              \<and> Item.quantity sel < parseInt (NewSale.selectedQuantity st)))
   \<and> (NewSale.error (NewSale_handleAddItem st) \<noteq> None \<longrightarrow>
        NewSale.formData (NewSale_handleAddItem st) = NewSale.formData st)
   \<and> (NewSale.error (NewSale_handleAddItem st) = None \<longrightarrow>
        (\<exists>sel. NewSale.selectedItem st = Some sel
           \<and> NewSale.formData (NewSale_handleAddItem st)
               = (NewSale.formData st)
                   \<lparr>Sale.items :=
                      Some ((case Sale.items (NewSale.formData st) of None \<Rightarrow> [] | Some old \<Rightarrow> old)
                            @ [\<lparr>SaleItem.item =
                                  ItemId (case Item.ident sel of None \<Rightarrow> [] | Some i \<Rightarrow> i),
                                SaleItem.quantity = parseInt (NewSale.selectedQuantity st),
                                SaleItem.priceAtSale = Item.price sel\<rparr>])\<rparr>))"
proof (cases "NewSale.selectedItem st")
  case None
  then show ?thesis by (simp add: NewSale_handleAddItem_def)
next
  case (Some sel)
  show ?thesis
    using parseInt_not_positive [of "NewSale.selectedQuantity st"]
    by (simp add: NewSale_handleAddItem_def Some Let_def items_or_empty_def ident_or_empty_def)
qed

text \<open>
  On the sale that already has two lines, with the widget selected (five on hand, price
  10): quantity 2 is put after the two lines at price 10; quantity 0, the text abc and
  quantity 6 are rejected, as is adding with no item selected, and each rejection leaves
  the form data as they were. On the sale with no line, quantity 2 gives the one line.
\<close>

theorem sale_add_item_validation_witness:
  "Sale.items scenario_A = Some [sale_line 2 10, sale_line 1 5]
   \<and> NewSale.error (NewSale_handleAddItem (sale_entry_on scenario_A ''2'')) = None
   \<and> NewSale.formData (NewSale_handleAddItem (sale_entry_on scenario_A ''2''))
       = scenario_A\<lparr>Sale.items := Some [sale_line 2 10, sale_line 1 5, sale_line 2 10]\<rparr>
   \<and> NewSale.error (NewSale_handleAddItem (sale_entry_on scenario_A ''0'')) \<noteq> None
   \<and> NewSale.formData (NewSale_handleAddItem (sale_entry_on scenario_A ''0'')) = scenario_A
   \<and> NewSale.error (NewSale_handleAddItem (sale_entry_on scenario_A ''abc'')) \<noteq> None
   \<and> NewSale.formData (NewSale_handleAddItem (sale_entry_on scenario_A ''abc'')) = scenario_A
   \<and> NewSale.error (NewSale_handleAddItem (sale_entry_on scenario_A ''6'')) \<noteq> None
   \<and> NewSale.formData (NewSale_handleAddItem (sale_entry_on scenario_A ''6'')) = scenario_A
   \<and> NewSale.error (NewSale_handleAddItem (sale_screen scenario_A)) \<noteq> None
   \<and> NewSale.formData (NewSale_handleAddItem (sale_screen scenario_A)) = scenario_A
   \<and> Sale.items (NewSale.formData (NewSale_handleAddItem (sale_entry ''2'')))
       = Some [sale_line 2 10]"
  using sale_add_item_validation [of "sale_entry_on scenario_A ''2''"]
    sale_add_item_validation [of "sale_entry_on scenario_A ''0''"]
    sale_add_item_validation [of "sale_entry_on scenario_A ''abc''"]
    sale_add_item_validation [of "sale_entry_on scenario_A ''6''"]
    sale_add_item_validation [of "sale_screen scenario_A"]
    sale_add_item_validation [of "sale_entry ''2''"]
  by (simp add: sale_entry_on_def sale_entry_def sale_screen_def scenario_A_def sale_form_def
      NewSale_initial_def widget_def sale_line_def parseInt_2 parseInt_0 parseInt_6 parseInt_abc)

text \<open>
  Claim C9, as stated, fails at two inputs. A sale of one widget whose tax rate and
  discount are both infinite has the total \<open>NaN\<close>, which is not at most zero, and is
  rejected all the same. A purchase with a line whose supplier name is two spaces is
  saved.
\<close>

theorem submission_outside_the_stated_cases:
  "Sale.items sale_infinite_rates = Some [sale_line 1 10]
   \<and> Sale.total sale_infinite_rates = Some NaN
   \<and> \<not> NaN \<le> Fin 0
   \<and> snd (NewSale_handleSubmit (sale_screen sale_infinite_rates)) = None
   \<and> NewSale.error (fst (NewSale_handleSubmit (sale_screen sale_infinite_rates)))
       = Some Sale_total_must_be_greater_than_zero
   \<and> Purchase.supplier (from_spaces scenario_C)
       = Some \<lparr>Supplier.name = Some ''  '', Supplier.contactName = Some [],
               Supplier.email = Some [], Supplier.phone = Some []\<rparr>
   \<and> Purchase.items (from_spaces scenario_C) = Some [purchase_line 10 2.5]
   \<and> snd (EditPurchase_handleSave (purchase_screen (from_spaces scenario_C)))
       = Some (from_spaces scenario_C)"
  by (simp add: sale_infinite_rates_def sale_form_def sale_line_def NewSale_initial_def
      NewSale_handleTextChange_def NewSale_totals_effect_def Let_def parseFloat_Infinity
      inf_of_sign_def sale_screen_def NewSale_handleSubmit_def NewSale_validateForm_def
      items_or_empty_def from_spaces_def scenario_C_def purchase_form_def purchase_line_def
      EditPurchase_initial_def EditPurchase_handleTextChange_def supplier_or_empty_def
      purchase_screen_def EditPurchase_handleSave_def supplier_name_missing_def)

text \<open>
  Claim C9, amended. Submitting a sale makes no request, and sets an error message,
  exactly when the sale has no line or its total is absent, \<open>NaN\<close> or at most zero.
  Saving a purchase makes no request, and sets an error message, whenever there is no
  supplier, no supplier name or the empty name, or the purchase has no line; it makes
  the request whenever the name holds a character that is not white space and the
  purchase has a line. The purchase's total plays no part. A request that is made carries
  the form data.
\<close>

theorem submission_validation:
  "(snd (NewSale_handleSubmit s) = None)
     = (Sale.items (NewSale.formData s) = None \<or> Sale.items (NewSale.formData s) = Some []
        \<or> Sale.total (NewSale.formData s) = None \<or> Sale.total (NewSale.formData s) = Some NaN
        \<or> (\<exists>t. Sale.total (NewSale.formData s) = Some t \<and> t \<le> Fin 0))
   \<and> (snd (NewSale_handleSubmit s) = None \<longrightarrow> NewSale.error (fst (NewSale_handleSubmit s)) \<noteq> None)
   \<and> (snd (NewSale_handleSubmit s) \<noteq> None \<longrightarrow>
         snd (NewSale_handleSubmit s) = Some (NewSale.formData s))
   \<and> (Purchase.supplier (EditPurchase.formData p) = None
        \<or> (\<exists>sup. Purchase.supplier (EditPurchase.formData p) = Some sup
              \<and> (Supplier.name sup = None \<or> Supplier.name sup = Some []))
        \<or> Purchase.items (EditPurchase.formData p) = None
        \<or> Purchase.items (EditPurchase.formData p) = Some [] \<longrightarrow>
         snd (EditPurchase_handleSave p) = None
         \<and> EditPurchase.error (fst (EditPurchase_handleSave p)) \<noteq> None)
   \<and> ((\<exists>sup n. Purchase.supplier (EditPurchase.formData p) = Some sup
              \<and> Supplier.name sup = Some n \<and> (\<exists>c \<in> set n. \<not> isWhiteSpace c))
        \<and> (\<exists>line its. Purchase.items (EditPurchase.formData p) = Some (line # its)) \<longrightarrow>
         snd (EditPurchase_handleSave p) = Some (EditPurchase.formData p))
   \<and> (\<forall>x. (snd (EditPurchase_handleSave
                 (p\<lparr>EditPurchase.formData := (EditPurchase.formData p)\<lparr>Purchase.total := x\<rparr>\<rparr>)) = None)
            = (snd (EditPurchase_handleSave p) = None))"
proof -
  have or0: "(or_0 v \<le> Fin 0) = (v = None \<or> v = Some NaN \<or> (\<exists>t. v = Some t \<and> t \<le> Fin 0))"
    for v
    by (cases v; cases "the v") auto
  have sale: "(snd (NewSale_handleSubmit s) = None)
     = (Sale.items (NewSale.formData s) = None \<or> Sale.items (NewSale.formData s) = Some []
        \<or> Sale.total (NewSale.formData s) = None \<or> Sale.total (NewSale.formData s) = Some NaN
        \<or> (\<exists>t. Sale.total (NewSale.formData s) = Some t \<and> t \<le> Fin 0))"
    unfolding or0 [symmetric]
    by (cases "Sale.items (NewSale.formData s)")
       (simp_all add: NewSale_handleSubmit_def NewSale_validateForm_def items_or_empty_def)
  have msg: "snd (NewSale_handleSubmit s) = None \<longrightarrow>
      NewSale.error (fst (NewSale_handleSubmit s)) \<noteq> None"
    by (simp add: NewSale_handleSubmit_def split: option.split)
  have sent: "snd (NewSale_handleSubmit s) \<noteq> None \<longrightarrow>
         snd (NewSale_handleSubmit s) = Some (NewSale.formData s)"
    by (simp add: NewSale_handleSubmit_def split: option.split)
  have rejected: "Purchase.supplier (EditPurchase.formData p) = None
        \<or> (\<exists>sup. Purchase.supplier (EditPurchase.formData p) = Some sup
              \<and> (Supplier.name sup = None \<or> Supplier.name sup = Some []))
        \<or> Purchase.items (EditPurchase.formData p) = None
        \<or> Purchase.items (EditPurchase.formData p) = Some [] \<longrightarrow>
         snd (EditPurchase_handleSave p) = None
         \<and> EditPurchase.error (fst (EditPurchase_handleSave p)) \<noteq> None"
    by (auto simp: EditPurchase_handleSave_def supplier_name_missing_def items_or_empty_def
        split: option.splits)
  have saved: "(\<exists>sup n. Purchase.supplier (EditPurchase.formData p) = Some sup
              \<and> Supplier.name sup = Some n \<and> (\<exists>c \<in> set n. \<not> isWhiteSpace c))
        \<and> (\<exists>line its. Purchase.items (EditPurchase.formData p) = Some (line # its)) \<longrightarrow>
         snd (EditPurchase_handleSave p) = Some (EditPurchase.formData p)"
    by (auto simp: EditPurchase_handleSave_def supplier_name_missing_def items_or_empty_def
        split: option.splits)
  have nototal: "\<forall>x. (snd (EditPurchase_handleSave
                 (p\<lparr>EditPurchase.formData := (EditPurchase.formData p)\<lparr>Purchase.total := x\<rparr>\<rparr>)) = None)
            = (snd (EditPurchase_handleSave p) = None)"
    by (simp add: EditPurchase_handleSave_def supplier_name_missing_def)
  from sale msg sent rejected saved nototal show ?thesis by blast
qed

text \<open>
  The recomputed sale with total 15 is submitted; the sale whose total was clamped to 0,
  the sale with no line and the sale with total \<open>NaN\<close> are not. The purchase from Acme
  is saved although its stored total is 0; with the empty supplier name, with no
  supplier, or with no line, it is not.
\<close>

theorem submission_validation_witness:
  "Sale.total (NewSale_totals_effect (sale_form [sale_line 2 10] 0 5)) = Some (Fin 15)
   \<and> snd (NewSale_handleSubmit (sale_screen (NewSale_totals_effect (sale_form [sale_line 2 10] 0 5))))
       = Some (NewSale_totals_effect (sale_form [sale_line 2 10] 0 5))
   \<and> Sale.total (NewSale_totals_effect scenario_B) = Some (Fin 0)
   \<and> snd (NewSale_handleSubmit (sale_screen (NewSale_totals_effect scenario_B))) = None
   \<and> snd (NewSale_handleSubmit NewSale_initial) = None
   \<and> snd (NewSale_handleSubmit (sale_screen sale_infinite_rates)) = None
   \<and> Purchase.total (from_Acme scenario_C) = Some (Fin 0)
   \<and> snd (EditPurchase_handleSave (purchase_screen (from_Acme scenario_C)))
       = Some (from_Acme scenario_C)
   \<and> snd (EditPurchase_handleSave (purchase_screen scenario_C)) = None
   \<and> snd (EditPurchase_handleSave (purchase_screen (scenario_C\<lparr>Purchase.supplier := None\<rparr>))) = None
   \<and> snd (EditPurchase_handleSave (purchase_screen (from_Acme (purchase_form [] 0 0)))) = None"
  using submission_validation [of "sale_screen (NewSale_totals_effect (sale_form [sale_line 2 10] 0 5))"
      "purchase_screen (from_Acme scenario_C)"]
    submission_validation [of "sale_screen (NewSale_totals_effect scenario_B)"
      "purchase_screen scenario_C"]
    submission_validation [of NewSale_initial
      "purchase_screen (scenario_C\<lparr>Purchase.supplier := None\<rparr>)"]
    submission_validation [of "sale_screen sale_infinite_rates"
      "purchase_screen (from_Acme (purchase_form [] 0 0))"]
  by (simp add: sale_screen_def purchase_screen_def from_Acme_def scenario_B_def
      scenario_C_def sale_form_def purchase_form_def sale_line_def purchase_line_def
      NewSale_initial_def EditPurchase_initial_def NewSale_totals_effect_def Let_def
      EditPurchase_handleTextChange_def supplier_or_empty_def isWhiteSpace_def
      sale_infinite_rates_def NewSale_handleTextChange_def parseFloat_Infinity inf_of_sign_def)

section \<open>Line entry on the Edit Purchase screen\<close>

text \<open>The definitions that evaluate a line entry of the Edit Purchase screen.\<close>

lemmas entry_defs = purchase_entry_def EditPurchase_lineTotal_effect_def
  EditPurchase_handleAddItem_def EditPurchase_initial_def widget_def flour_def or_text_0_def
  items_or_empty_def ident_or_empty_def widget_line_def flour_line_def Let_def

text \<open>
  Claim C6 at its failing inputs. On the sale screen the quantity text 0 is rejected
  with its message and the form data are unchanged. On the Edit Purchase screen, for a
  purchase that has one line, the quantity texts 0 and -2 of the widget and the weight
  text 0 of the flour (the text the weight field starts with) each put a line after the
  one already there.
\<close>

theorem purchase_nonpositive_quantity_appended:
  "Purchase.items (from_Acme scenario_C) = Some [purchase_line 10 2.5]
   \<and> parseInt ''0'' \<le> Fin 0
   \<and> Purchase.items (EditPurchase.formData
         (EditPurchase_handleAddItem (purchase_entry_on (from_Acme scenario_C) widget ''0'' ''0'' ''3'')))
       = Some [purchase_line 10 2.5, widget_line (Fin 0) (Fin 3) (Fin 0)]
   \<and> parseInt ''-2'' \<le> Fin 0
   \<and> Purchase.items (EditPurchase.formData
         (EditPurchase_handleAddItem (purchase_entry_on (from_Acme scenario_C) widget ''-2'' ''0'' ''3'')))
       = Some [purchase_line 10 2.5, widget_line (Fin (- 2)) (Fin 3) (Fin (- 6))]
   \<and> parseFloat ''0'' \<le> Fin 0
   \<and> Purchase.items (EditPurchase.formData
         (EditPurchase_handleAddItem (purchase_entry_on (from_Acme scenario_C) flour ''1'' ''0'' ''3'')))
       = Some [purchase_line 10 2.5, flour_line (Fin 0) (Fin 3) (Fin 0)]
   \<and> NewSale.error (NewSale_handleAddItem (sale_entry_on scenario_A ''0''))
       = Some Quantity_must_be_a_positive_number
   \<and> NewSale.formData (NewSale_handleAddItem (sale_entry_on scenario_A ''0'')) = scenario_A"
  by (simp add: purchase_entry_on_def entry_defs from_Acme_def scenario_C_def purchase_form_def
      purchase_line_def EditPurchase_handleTextChange_def supplier_or_empty_def
      parseInt_0 parseInt_minus_2 parseFloat_0 parseFloat_3
      sale_entry_on_def scenario_A_def sale_form_def NewSale_initial_def NewSale_handleAddItem_def
      isNaN_def)

text \<open>
  What the form fields do with text that is no number: tax rate, discount and shipping
  cost are stored as \<open>parseFloat(text) || 0\<close>, which is never \<open>NaN\<close> and is \<open>0\<close> for
  unparseable and for empty text.
\<close>

lemma form_number_fields_coerced:
  "Sale.taxRate (NewSale_handleTextChange SF_taxRate v sale) = Some (or_0 (Some (parseFloat v)))
   \<and> Sale.discountAmount (NewSale_handleTextChange SF_discountAmount v sale)
       = Some (or_0 (Some (parseFloat v)))
   \<and> Purchase.taxRate (EditPurchase_handleTextChange PF_taxRate v purchase)
       = Some (or_0 (Some (parseFloat v)))
   \<and> Purchase.shippingCost (EditPurchase_handleTextChange PF_shippingCost v purchase)
       = Some (or_0 (Some (parseFloat v)))
   \<and> or_0 (Some (parseFloat v)) \<noteq> NaN
   \<and> (parseFloat v = NaN \<longrightarrow> or_0 (Some (parseFloat v)) = Fin 0)
   \<and> or_0 (Some (parseFloat [])) = Fin 0"
  by (cases "parseFloat v")
     (simp_all add: NewSale_handleTextChange_def EditPurchase_handleTextChange_def
        parseFloat_empty)

text \<open>
  Claim C5 at its failing inputs. The text abc in the sale's discount field is stored as
  0. On the Edit Purchase screen nothing coerces the entry fields: with the widget
  selected, cost per unit 3 and the quantity field emptied, the line is appended with
  quantity \<open>NaN\<close> and total cost \<open>NaN\<close>, and the totals effect then stores \<open>NaN\<close> as
  subtotal, tax amount and total. The text abc as the weight of the flour, or as the cost
  per unit, gives a \<open>NaN\<close> total cost in the same way.
\<close>

theorem purchase_entry_parse_failure_reaches_totals:
  "Sale.discountAmount (NewSale_handleTextChange SF_discountAmount ''abc'' scenario_A)
     = Some (Fin 0)
   \<and> Purchase.items (EditPurchase.formData
         (EditPurchase_handleAddItem (purchase_entry widget [] ''0'' ''3'')))
       = Some [widget_line NaN (Fin 3) NaN]
   \<and> Purchase.subtotal (EditPurchase_totals_effect (EditPurchase.formData
         (EditPurchase_handleAddItem (purchase_entry widget [] ''0'' ''3'')))) = Some NaN
   \<and> Purchase.taxAmount (EditPurchase_totals_effect (EditPurchase.formData
         (EditPurchase_handleAddItem (purchase_entry widget [] ''0'' ''3'')))) = Some NaN
   \<and> Purchase.total (EditPurchase_totals_effect (EditPurchase.formData
         (EditPurchase_handleAddItem (purchase_entry widget [] ''0'' ''3'')))) = Some NaN
   \<and> Purchase.items (EditPurchase.formData
         (EditPurchase_handleAddItem (purchase_entry flour ''1'' ''abc'' ''3'')))
       = Some [flour_line NaN (Fin 3) NaN]
   \<and> Purchase.items (EditPurchase.formData
         (EditPurchase_handleAddItem (purchase_entry widget ''2'' ''0'' ''abc'')))
       = Some [widget_line (Fin 2) NaN NaN]"
  by (simp add: entry_defs NewSale_handleTextChange_def EditPurchase_totals_effect_def
      parseInt_empty parseInt_2 parseFloat_3 parseFloat_abc)

text \<open>
  The shape of the line the Edit Purchase screen appends once the line-total effect has
  run: quantity alone for an item not tracked by weight, weight and unit alone for one
  tracked by weight, the unit stored as selected with no conversion; and, when the
  cost-per-unit text is not empty, a total cost equal to quantity or weight times the
  stored cost per unit.
\<close>

lemma purchase_line_shape:
  assumes "EditPurchase.selectedItem st = Some sel"
  shows "\<exists>line. Purchase.items (EditPurchase.formData
                   (EditPurchase_handleAddItem (EditPurchase_lineTotal_effect st)))
                 = Some ((case Purchase.items (EditPurchase.formData st) of
                            None \<Rightarrow> [] | Some old \<Rightarrow> old) @ [line])
           \<and> (if Item.trackingType sel = Some tracking_weight
               then PurchaseItem.quantity line = None
                    \<and> PurchaseItem.weight line = Some (parseFloat (EditPurchase.weight st))
                    \<and> PurchaseItem.weightUnit line = Some (EditPurchase.weightUnit st)
                    \<and> (EditPurchase.costPerUnit st \<noteq> [] \<longrightarrow>
                         PurchaseItem.totalCost line
                           = parseFloat (EditPurchase.weight st) * PurchaseItem.costPerUnit line)
               else PurchaseItem.quantity line = Some (parseInt (EditPurchase.quantity st))
                    \<and> PurchaseItem.weight line = None
                    \<and> PurchaseItem.weightUnit line = None
                    \<and> (EditPurchase.costPerUnit st \<noteq> [] \<longrightarrow>
                         PurchaseItem.totalCost line
                           = parseInt (EditPurchase.quantity st) * PurchaseItem.costPerUnit line))"
  using assms
  by (simp add: EditPurchase_handleAddItem_def EditPurchase_lineTotal_effect_def Let_def
      or_text_0_def items_or_empty_def)

text \<open>
  Claim C8 at its failing input. With the widget selected, quantity 2 and the
  cost-per-unit field emptied, the line-total effect reads the empty text as 0 and shows
  a total cost of 0, while adding the line parses the empty text itself: the line is
  stored with cost per unit \<open>NaN\<close> and total cost 0, which is not 2 times the stored
  cost per unit.
\<close>

theorem purchase_line_total_cost_mismatch:
  "Purchase.items (EditPurchase.formData
       (EditPurchase_handleAddItem (purchase_entry widget ''2'' ''0'' [])))
     = Some [widget_line (Fin 2) NaN (Fin 0)]
   \<and> Fin 2 * NaN \<noteq> Fin 0"
  by (simp add: entry_defs parseInt_2 parseFloat_0 parseFloat_empty)

end
